theory Spec2Isabelle
  imports Complex_Main
begin

unbundle bit_operations_syntax

section \<open>Dispatcher: rounding the feature tile to a power of two\<close>

text \<open>
  \<^verbatim>\<open>FlashAttentionV2.forward\<close> and \<^verbatim>\<open>FlashAttentionV2.backward\<close> both compute
  \<^verbatim>\<open>
      block_k = head_dim
      if block_k & (block_k - 1) != 0:
          block_k = 1
          while block_k < head_dim:
              block_k *= 2
  \<close>
  In Python \<^verbatim>\<open>&\<close> binds tighter than \<^verbatim>\<open>!=\<close>, so the test is
  \<^verbatim>\<open>(block_k & (block_k - 1)) != 0\<close>. Tensor dimensions are never negative, so they
  are natural numbers here; at \<open>head_dim = 0\<close> Python computes \<^verbatim>\<open>0 & -1 = 0\<close> and the
  truncated subtraction of \<open>nat\<close> gives the same value \<open>0 AND 0 = 0\<close>.
  The \<^verbatim>\<open>while\<close> loop is a partial function: not returning is the value \<open>None\<close>.
\<close>

partial_function (option) double_while :: "nat \<Rightarrow> nat \<Rightarrow> nat option" where
  "double_while block_k head_dim =
     (if block_k < head_dim then double_while (block_k * 2) head_dim else Some block_k)"

definition round_block_k :: "nat \<Rightarrow> nat option" where
  "round_block_k head_dim =
     (let block_k = head_dim in
      if block_k AND (block_k - 1) \<noteq> 0 then double_while 1 head_dim else Some block_k)"


section \<open>Values\<close>

text \<open>
  Tensor elements are modelled as exact real numbers extended with the three special
  values of IEEE arithmetic that the kernels produce on purpose (\<^verbatim>\<open>float("-inf")\<close>)
  or by accident (\<open>\<infinity> - \<infinity>\<close>, \<open>0 \<cdot> \<infinity>\<close>, \<open>0 / 0\<close>). Rounding, overflow of finite values
  and the sign of zero are not modelled.
\<close>

datatype fval = Fin real | PInf | NInf | NaN

fun fneg :: "fval \<Rightarrow> fval" where
  "fneg (Fin a) = Fin (- a)"
| "fneg PInf = NInf"
| "fneg NInf = PInf"
| "fneg NaN = NaN"

fun fadd :: "fval \<Rightarrow> fval \<Rightarrow> fval" where
  "fadd (Fin a) (Fin b) = Fin (a + b)"
| "fadd (Fin a) PInf = PInf"
| "fadd (Fin a) NInf = NInf"
| "fadd PInf (Fin b) = PInf"
| "fadd PInf PInf = PInf"
| "fadd PInf NInf = NaN"
| "fadd NInf (Fin b) = NInf"
| "fadd NInf NInf = NInf"
| "fadd NInf PInf = NaN"
| "fadd NaN y = NaN"
| "fadd x NaN = NaN"

definition fsub :: "fval \<Rightarrow> fval \<Rightarrow> fval" where
  "fsub x y = fadd x (fneg y)"

text \<open>The sign of an infinite product or quotient; \<open>0 \<cdot> \<infinity>\<close> is \<open>NaN\<close>.\<close>

definition signed_inf :: "real \<Rightarrow> fval" where
  "signed_inf a = (if a = 0 then NaN else if 0 < a then PInf else NInf)"

fun fmul :: "fval \<Rightarrow> fval \<Rightarrow> fval" where
  "fmul (Fin a) (Fin b) = Fin (a * b)"
| "fmul (Fin a) PInf = signed_inf a"
| "fmul (Fin a) NInf = signed_inf (- a)"
| "fmul PInf (Fin b) = signed_inf b"
| "fmul NInf (Fin b) = signed_inf (- b)"
| "fmul PInf PInf = PInf"
| "fmul PInf NInf = NInf"
| "fmul NInf PInf = NInf"
| "fmul NInf NInf = PInf"
| "fmul NaN y = NaN"
| "fmul x NaN = NaN"

text \<open>Division: \<open>x / 0\<close> is an infinity of the sign of \<open>x\<close>, and \<open>0 / 0\<close> is \<open>NaN\<close>.\<close>

fun fdiv :: "fval \<Rightarrow> fval \<Rightarrow> fval" where
  "fdiv (Fin a) (Fin b) = (if b = 0 then signed_inf a else Fin (a / b))"
| "fdiv (Fin a) PInf = Fin 0"
| "fdiv (Fin a) NInf = Fin 0"
| "fdiv PInf (Fin b) = (if 0 \<le> b then PInf else NInf)"
| "fdiv NInf (Fin b) = (if 0 \<le> b then NInf else PInf)"
| "fdiv PInf PInf = NaN"
| "fdiv PInf NInf = NaN"
| "fdiv NInf PInf = NaN"
| "fdiv NInf NInf = NaN"
| "fdiv NaN y = NaN"
| "fdiv x NaN = NaN"

fun fexp :: "fval \<Rightarrow> fval" where
  "fexp (Fin a) = Fin (exp a)"
| "fexp PInf = PInf"
| "fexp NInf = Fin 0"
| "fexp NaN = NaN"

text \<open>
  \<^verbatim>\<open>tl.maximum\<close> and the reduction \<^verbatim>\<open>tl.max\<close> without NaN propagation: when one
  operand is \<open>NaN\<close> the other is returned.
\<close>

fun fmax :: "fval \<Rightarrow> fval \<Rightarrow> fval" where
  "fmax NaN y = y"
| "fmax x NaN = x"
| "fmax PInf y = PInf"
| "fmax x PInf = PInf"
| "fmax NInf y = y"
| "fmax x NInf = x"
| "fmax (Fin a) (Fin b) = Fin (max a b)"

section \<open>Memory and Triton block operations\<close>

text \<open>
  Device memory is one flat array of elements; a pointer is an element index and pointer
  arithmetic is addition. A Triton block of static shape \<open>[M]\<close> or \<open>[M, N]\<close> is a
  function from its indices to its elements; an operation that enumerates or reduces an
  axis takes the static length of that axis.
\<close>

type_synonym mem = "nat \<Rightarrow> fval"

definition tl_load1 :: "mem \<Rightarrow> (nat \<Rightarrow> nat) \<Rightarrow> (nat \<Rightarrow> bool) \<Rightarrow> fval \<Rightarrow> nat \<Rightarrow> fval" where
  "tl_load1 mem ptrs msk other = (\<lambda>i. if msk i then mem (ptrs i) else other)"

definition tl_load2 ::
  "mem \<Rightarrow> (nat \<Rightarrow> nat \<Rightarrow> nat) \<Rightarrow> (nat \<Rightarrow> nat \<Rightarrow> bool) \<Rightarrow> fval \<Rightarrow> nat \<Rightarrow> nat \<Rightarrow> fval" where
  "tl_load2 mem ptrs msk other = (\<lambda>i j. if msk i j then mem (ptrs i j) else other)"

definition tl_store1 ::
  "nat \<Rightarrow> (nat \<Rightarrow> nat) \<Rightarrow> (nat \<Rightarrow> fval) \<Rightarrow> (nat \<Rightarrow> bool) \<Rightarrow> mem \<Rightarrow> mem" where
  "tl_store1 M ptrs val msk mem =
     fold (\<lambda>i m. if msk i then m(ptrs i := val i) else m) [0..<M] mem"

definition tl_store2 ::
  "nat \<Rightarrow> nat \<Rightarrow> (nat \<Rightarrow> nat \<Rightarrow> nat) \<Rightarrow> (nat \<Rightarrow> nat \<Rightarrow> fval) \<Rightarrow> (nat \<Rightarrow> nat \<Rightarrow> bool) \<Rightarrow>
     mem \<Rightarrow> mem" where
  "tl_store2 M N ptrs val msk mem =
     fold (\<lambda>i m. fold (\<lambda>j m'. if msk i j then m'(ptrs i j := val i j) else m') [0..<N] m)
       [0..<M] mem"

definition tl_sum :: "nat \<Rightarrow> (nat \<Rightarrow> fval) \<Rightarrow> fval" where
  "tl_sum n x = fold (\<lambda>k s. fadd s (x k)) [0..<n] (Fin 0)"

definition tl_max :: "nat \<Rightarrow> (nat \<Rightarrow> fval) \<Rightarrow> fval" where
  "tl_max n x = fold (\<lambda>k s. fmax s (x k)) [1..<n] (x 0)"

definition tl_dot ::
  "nat \<Rightarrow> (nat \<Rightarrow> nat \<Rightarrow> fval) \<Rightarrow> (nat \<Rightarrow> nat \<Rightarrow> fval) \<Rightarrow> nat \<Rightarrow> nat \<Rightarrow> fval" where
  "tl_dot K a b = (\<lambda>i j. tl_sum K (\<lambda>k. fmul (a i k) (b k j)))"

definition tl_trans :: "(nat \<Rightarrow> nat \<Rightarrow> 'a) \<Rightarrow> nat \<Rightarrow> nat \<Rightarrow> 'a" where
  "tl_trans a = (\<lambda>i j. a j i)"

definition tl_where ::
  "(nat \<Rightarrow> nat \<Rightarrow> bool) \<Rightarrow> (nat \<Rightarrow> nat \<Rightarrow> fval) \<Rightarrow> fval \<Rightarrow> nat \<Rightarrow> nat \<Rightarrow> fval" where
  "tl_where cond x y = (\<lambda>i j. if cond i j then x i j else y)"

text \<open>\<^verbatim>\<open>range(0, stop, step)\<close> for a positive step.\<close>

definition py_range :: "nat \<Rightarrow> nat \<Rightarrow> nat list" where
  "py_range stop step = map (\<lambda>t. t * step) [0..<(stop + step - 1) div step]"

text \<open>A kernel argument pair: the base pointer of a tensor and its four strides.\<close>

record tref =
  ptr :: nat
  batch_stride :: nat
  head_stride :: nat
  seq_stride :: nat
  head_dim_stride :: nat

section \<open>The forward kernel\<close>

type_synonym fwd_state = "(nat \<Rightarrow> fval) \<times> (nat \<Rightarrow> fval) \<times> (nat \<Rightarrow> nat \<Rightarrow> fval)"

text \<open>
  One iteration of \<^verbatim>\<open>for start_n in range(0, seq_len, BLOCK_SIZE_N)\<close> of
  \<^verbatim>\<open>flash_attn_v2_forward\<close>. The key and value tiles are loaded under \<open>col_mask\<close>
  with \<open>other = 0.0\<close>; the scores are masked only when \<open>IS_CAUSAL\<close> holds.
\<close>

definition forward_body ::
  "mem \<Rightarrow> tref \<Rightarrow> tref \<Rightarrow> nat \<Rightarrow> nat \<Rightarrow> nat \<Rightarrow> nat \<Rightarrow> fval \<Rightarrow> nat \<Rightarrow> nat \<Rightarrow> bool \<Rightarrow>
     (nat \<Rightarrow> nat) \<Rightarrow> (nat \<Rightarrow> nat \<Rightarrow> fval) \<Rightarrow> nat \<Rightarrow> fwd_state \<Rightarrow> fwd_state" where
  "forward_body mem k v batch_id head_id seq_len head_dim scale BLOCK_SIZE_N BLOCK_SIZE_K
       IS_CAUSAL row_indices q_block start_n st =
     (case st of (m_i, l_i, acc) \<Rightarrow>
      let k_batch_offset = batch_id * batch_stride k;
          k_head_offset = head_id * head_stride k;
          v_batch_offset = batch_id * batch_stride v;
          v_head_offset = head_id * head_stride v;
          col_indices = (\<lambda>j. start_n + j);
          col_mask = (\<lambda>j. col_indices j < seq_len);
          causal_mask = (\<lambda>i j. row_indices i \<ge> col_indices j);
          k_block = tl_load2 mem
            (\<lambda>j c. ptr k + k_batch_offset + k_head_offset +
                    col_indices j * seq_stride k + c * head_dim_stride k)
            (\<lambda>j c. col_mask j \<and> c < head_dim) (Fin 0);
          scores = (\<lambda>i j. fmul (tl_dot BLOCK_SIZE_K q_block (tl_trans k_block) i j) scale);
          scores = (if IS_CAUSAL then tl_where causal_mask scores NInf else scores);
          m_i_new = (\<lambda>i. fmax (m_i i) (tl_max BLOCK_SIZE_N (scores i)));
          alpha = (\<lambda>i. fexp (fsub (m_i i) (m_i_new i)));
          m_i = m_i_new;
          p = (\<lambda>i j. fexp (fsub (scores i j) (m_i i)));
          v_block = tl_load2 mem
            (\<lambda>j c. ptr v + v_batch_offset + v_head_offset +
                    col_indices j * seq_stride v + c * head_dim_stride v)
            (\<lambda>j c. col_mask j \<and> c < head_dim) (Fin 0);
          l_i_new = (\<lambda>i. fadd (fmul (alpha i) (l_i i)) (tl_sum BLOCK_SIZE_N (p i)));
          acc_new = (\<lambda>i c. fadd (fmul (alpha i) (acc i c)) (tl_dot BLOCK_SIZE_N p v_block i c))
      in (m_i, l_i_new, acc_new))"

text \<open>
  Lines 32 to 115: the accumulators after the loop over all key tiles, for the program
  \<open>(batch_id, head_id, m_id)\<close>.
\<close>

definition forward_loop ::
  "mem \<Rightarrow> tref \<Rightarrow> tref \<Rightarrow> tref \<Rightarrow> nat \<Rightarrow> nat \<Rightarrow> fval \<Rightarrow> nat \<Rightarrow> nat \<Rightarrow> nat \<Rightarrow> bool \<Rightarrow>
     nat \<times> nat \<times> nat \<Rightarrow> fwd_state" where
  "forward_loop mem q k v seq_len head_dim scale BLOCK_SIZE_M BLOCK_SIZE_N BLOCK_SIZE_K
       IS_CAUSAL pid =
     (case pid of (batch_id, head_id, m_id) \<Rightarrow>
      let start_m = m_id * BLOCK_SIZE_M;
          q_batch_offset = batch_id * batch_stride q;
          q_head_offset = head_id * head_stride q;
          m_i = (\<lambda>i. fsub (Fin 0) PInf);
          l_i = (\<lambda>i. Fin 0);
          acc = (\<lambda>i c. Fin 0);
          row_indices = (\<lambda>i. start_m + i);
          row_mask = (\<lambda>i. row_indices i < seq_len);
          q_block = tl_load2 mem
            (\<lambda>i c. ptr q + q_batch_offset + q_head_offset +
                    row_indices i * seq_stride q + c * head_dim_stride q)
            (\<lambda>i c. row_mask i \<and> c < head_dim) (Fin 0)
      in fold (forward_body mem k v batch_id head_id seq_len head_dim scale BLOCK_SIZE_N
                 BLOCK_SIZE_K IS_CAUSAL row_indices q_block)
           (py_range seq_len BLOCK_SIZE_N) (m_i, l_i, acc))"

text \<open>Line 133: \<^verbatim>\<open>out = acc / l_i[:, None]\<close>, an unguarded division.\<close>

definition normalize_out :: "(nat \<Rightarrow> nat \<Rightarrow> fval) \<Rightarrow> (nat \<Rightarrow> fval) \<Rightarrow> nat \<Rightarrow> nat \<Rightarrow> fval" where
  "normalize_out acc l_i = (\<lambda>i c. fdiv (acc i c) (l_i i))"

text \<open>
  The whole kernel program. The kernel has no parameter for the statistics buffers: it
  derives \<open>m_ptr\<close> and \<open>l_ptr\<close> from \<open>o_ptr\<close> (lines 117 and 118) and stores the
  statistics there, then normalises and stores the output tile.
\<close>

definition flash_attn_v2_forward ::
  "tref \<Rightarrow> tref \<Rightarrow> tref \<Rightarrow> tref \<Rightarrow> nat \<Rightarrow> nat \<Rightarrow> nat \<Rightarrow> nat \<Rightarrow> fval \<Rightarrow> nat \<Rightarrow> nat \<Rightarrow> nat \<Rightarrow>
     bool \<Rightarrow> nat \<times> nat \<times> nat \<Rightarrow> mem \<Rightarrow> mem" where
  "flash_attn_v2_forward q k v o' batch_size seq_len num_heads head_dim scale
       BLOCK_SIZE_M BLOCK_SIZE_N BLOCK_SIZE_K IS_CAUSAL pid mem =
     (case pid of (batch_id, head_id, m_id) \<Rightarrow>
      case forward_loop mem q k v seq_len head_dim scale BLOCK_SIZE_M BLOCK_SIZE_N
             BLOCK_SIZE_K IS_CAUSAL pid of (m_i, l_i, acc) \<Rightarrow>
      let start_m = m_id * BLOCK_SIZE_M;
          o_batch_offset = batch_id * batch_stride o';
          o_head_offset = head_id * head_stride o';
          row_indices = (\<lambda>i. start_m + i);
          row_mask = (\<lambda>i. row_indices i < seq_len);
          m_ptr = ptr o' + seq_len * head_dim * num_heads * head_dim;
          l_ptr = m_ptr + seq_len * head_dim * num_heads;
          mem = tl_store1 BLOCK_SIZE_M
            (\<lambda>i. m_ptr + batch_id * (num_heads * seq_len) + head_id * seq_len + row_indices i)
            m_i row_mask mem;
          mem = tl_store1 BLOCK_SIZE_M
            (\<lambda>i. l_ptr + batch_id * (num_heads * seq_len) + head_id * seq_len + row_indices i)
            l_i row_mask mem;
          out = normalize_out acc l_i
      in tl_store2 BLOCK_SIZE_M BLOCK_SIZE_K
           (\<lambda>i c. ptr o' + o_batch_offset + o_head_offset +
                   row_indices i * seq_stride o' + c * head_dim_stride o')
           out (\<lambda>i c. row_mask i \<and> c < head_dim) mem)"

section \<open>Launching a kernel over a grid\<close>

text \<open>
  \<^verbatim>\<open>kernel[grid](...)\<close> runs one program per grid point. The programs of one launch
  are independent by design; here they run one after the other, in lexicographic order
  of \<open>(program_id(0), program_id(1), program_id(2))\<close>.
\<close>

definition program_ids :: "nat \<times> nat \<times> nat \<Rightarrow> (nat \<times> nat \<times> nat) list" where
  "program_ids grid =
     (case grid of (gx, gy, gz) \<Rightarrow>
        concat (map (\<lambda>x. concat (map (\<lambda>y. map (\<lambda>z. (x, y, z)) [0..<gz]) [0..<gy])) [0..<gx]))"

definition launch ::
  "nat \<times> nat \<times> nat \<Rightarrow> (nat \<times> nat \<times> nat \<Rightarrow> mem \<Rightarrow> mem) \<Rightarrow> mem \<Rightarrow> mem" where
  "launch grid prog mem = fold prog (program_ids grid) mem"

definition cdiv :: "nat \<Rightarrow> nat \<Rightarrow> nat" where
  "cdiv x y = (x + y - 1) div y"

section \<open>Host tensors and the forward entry point\<close>

text \<open>
  A host tensor: the address of its first element, its shape and its strides (in
  elements). \<^verbatim>\<open>t.stride(i)\<close> raises \<^verbatim>\<open>IndexError\<close> when \<open>i\<close> is not a dimension of
  \<open>t\<close>; unpacking \<^verbatim>\<open>q.shape\<close> into four names raises \<^verbatim>\<open>ValueError\<close> when \<open>q\<close> is not
  four-dimensional; \<^verbatim>\<open>triton.cdiv(x, 0)\<close> raises \<^verbatim>\<open>ZeroDivisionError\<close>.
\<close>

record tensor =
  data_ptr :: nat
  shape :: "nat list"
  strides :: "nat list"

datatype error = ValueError | IndexError | ZeroDivisionError

definition stride :: "tensor \<Rightarrow> nat \<Rightarrow> error + nat" where
  "stride t i = (if i < length (strides t) then Inr (strides t ! i) else Inl IndexError)"

definition bind_err :: "error + 'a \<Rightarrow> ('a \<Rightarrow> error + 'b) \<Rightarrow> error + 'b" where
  "bind_err x f = (case x of Inl e \<Rightarrow> Inl e | Inr a \<Rightarrow> f a)"

text \<open>
  The five kernel arguments \<^verbatim>\<open>t, t.stride(0), t.stride(1), t.stride(2), t.stride(3)\<close>,
  evaluated from left to right.
\<close>

definition kernel_ref :: "tensor \<Rightarrow> error + tref" where
  "kernel_ref t =
     bind_err (stride t 0) (\<lambda>s0.
     bind_err (stride t 1) (\<lambda>s1.
     bind_err (stride t 2) (\<lambda>s2.
     bind_err (stride t 3) (\<lambda>s3.
       Inr \<lparr>ptr = data_ptr t, batch_stride = s0, head_stride = s1, seq_stride = s2,
            head_dim_stride = s3\<rparr>))))"

definition triton_cdiv :: "nat \<Rightarrow> nat \<Rightarrow> error + nat" where
  "triton_cdiv x y = (if y = 0 then Inl ZeroDivisionError else Inr (cdiv x y))"

text \<open>
  What \<^verbatim>\<open>ctx.save_for_backward(q, k, v, o, m, l)\<close> and the three attribute
  assignments keep for the backward call.
\<close>

record ctx =
  saved_q :: tensor
  saved_k :: tensor
  saved_v :: tensor
  saved_o :: tensor
  saved_m :: tensor
  saved_l :: tensor
  ctx_scale :: fval
  ctx_causal :: bool
  ctx_block_size :: nat

text \<open>
  The allocator is the environment of the entry points: for every tensor they create it
  chooses the address and, for \<^verbatim>\<open>empty_like\<close> and \<^verbatim>\<open>zeros_like\<close>, the strides.
  \<^verbatim>\<open>torch.empty\<close> of a shape returns a contiguous tensor whose elements are whatever
  the memory holds.
\<close>

record fwd_alloc =
  o_data :: nat
  o_strides :: "nat list"
  m_data :: nat
  l_data :: nat

definition torch_empty3 :: "nat \<Rightarrow> nat \<Rightarrow> nat \<Rightarrow> nat \<Rightarrow> tensor" where
  "torch_empty3 p n0 n1 n2 = \<lparr>data_ptr = p, shape = [n0, n1, n2], strides = [n1 * n2, n2, 1]\<rparr>"

definition empty_like :: "nat \<Rightarrow> nat list \<Rightarrow> tensor \<Rightarrow> tensor" where
  "empty_like p ss t = \<lparr>data_ptr = p, shape = shape t, strides = ss\<rparr>"

text \<open>
  \<^verbatim>\<open>FlashAttentionV2.forward\<close>. The result is \<open>None\<close> when the rounding loop does not
  return, an error when the call raises, and otherwise the memory after the launch, the
  output tensor and the saved context. All four dimensions are read from \<open>q\<close>; the
  shapes of \<open>k\<close> and \<open>v\<close> are never looked at. The kernel is launched with
  \<open>q, k, v, o\<close> only.
\<close>

definition forward ::
  "mem \<Rightarrow> fwd_alloc \<Rightarrow> tensor \<Rightarrow> tensor \<Rightarrow> tensor \<Rightarrow> fval \<Rightarrow> bool \<Rightarrow> nat \<Rightarrow>
     (error + mem \<times> tensor \<times> ctx) option" where
  "forward mem al q k v scale causal block_size =
     (case shape q of
        [batch_size, num_heads, seq_len, head_dim] \<Rightarrow>
          (let o' = empty_like (o_data al) (o_strides al) q;
               m = torch_empty3 (m_data al) batch_size num_heads seq_len;
               l = torch_empty3 (l_data al) batch_size num_heads seq_len
           in case triton_cdiv seq_len block_size of
                Inl e \<Rightarrow> Some (Inl e)
              | Inr gz \<Rightarrow>
                  (case round_block_k head_dim of
                     None \<Rightarrow> None
                   | Some block_k \<Rightarrow> Some (
                       bind_err (kernel_ref q) (\<lambda>qr.
                       bind_err (kernel_ref k) (\<lambda>kr.
                       bind_err (kernel_ref v) (\<lambda>vr.
                       bind_err (kernel_ref o') (\<lambda>or.
                         Inr (launch (batch_size, num_heads, gz)
                                (flash_attn_v2_forward qr kr vr or
                                   batch_size seq_len num_heads head_dim scale
                                   block_size block_size block_k causal) mem,
                              o',
                              \<lparr>saved_q = q, saved_k = k, saved_v = v, saved_o = o',
                               saved_m = m, saved_l = l, ctx_scale = scale,
                               ctx_causal = causal, ctx_block_size = block_size\<rparr>))))))))
      | _ \<Rightarrow> Some (Inl ValueError))"

section \<open>The backward kernels\<close>

text \<open>
  \<^verbatim>\<open>flash_attn_v2_backward_preprocess\<close>: \<open>D = rowsum(O * dO)\<close> for the rows of one
  block, rows at or beyond the kernel's \<open>seq_len\<close> parameter masked. The feature axis
  is \<^verbatim>\<open>tl.arange(0, head_dim)\<close>.
\<close>

definition flash_attn_v2_backward_preprocess ::
  "tref \<Rightarrow> tref \<Rightarrow> nat \<Rightarrow> nat \<Rightarrow> nat \<Rightarrow> nat \<Rightarrow> nat \<Rightarrow> nat \<Rightarrow> nat \<times> nat \<times> nat \<Rightarrow> mem \<Rightarrow> mem" where
  "flash_attn_v2_backward_preprocess o' do' d_ptr batch_size seq_len num_heads head_dim
       BLOCK_SIZE pid mem =
     (case pid of (batch_id, head_id, block_id) \<Rightarrow>
      let start_idx = block_id * BLOCK_SIZE;
          row_indices = (\<lambda>i. start_idx + i);
          row_mask = (\<lambda>i. row_indices i < seq_len);
          o_batch_offset = batch_id * batch_stride o';
          o_head_offset = head_id * head_stride o';
          do_batch_offset = batch_id * batch_stride do';
          do_head_offset = head_id * head_stride do';
          o_block = tl_load2 mem
            (\<lambda>i c. ptr o' + o_batch_offset + o_head_offset +
                    row_indices i * seq_stride o' + c * head_dim_stride o')
            (\<lambda>i c. row_mask i \<and> c < head_dim) (Fin 0);
          do_block = tl_load2 mem
            (\<lambda>i c. ptr do' + do_batch_offset + do_head_offset +
                    row_indices i * seq_stride do' + c * head_dim_stride do')
            (\<lambda>i c. row_mask i \<and> c < head_dim) (Fin 0);
          d_block = (\<lambda>i. tl_sum head_dim (\<lambda>c. fmul (o_block i c) (do_block i c)));
          d_offset = batch_id * (num_heads * seq_len) + head_id * seq_len
      in tl_store1 BLOCK_SIZE (\<lambda>i. d_ptr + d_offset + row_indices i) d_block row_mask mem)"

text \<open>
  One iteration of the loop over key/value tiles of \<^verbatim>\<open>flash_attn_v2_backward_dq\<close>.
  The probability tile is \<open>exp(scores - m_i)\<close>; the loaded \<open>l_i\<close> is not an argument
  because the loop never mentions it. The local \<open>dv\<close> of line 306 is computed and never
  used.
\<close>

definition backward_dq_body ::
  "mem \<Rightarrow> tref \<Rightarrow> tref \<Rightarrow> nat \<Rightarrow> nat \<Rightarrow> nat \<Rightarrow> nat \<Rightarrow> fval \<Rightarrow> nat \<Rightarrow> nat \<Rightarrow> bool \<Rightarrow>
     (nat \<Rightarrow> nat) \<Rightarrow> (nat \<Rightarrow> fval) \<Rightarrow> (nat \<Rightarrow> fval) \<Rightarrow> (nat \<Rightarrow> nat \<Rightarrow> fval) \<Rightarrow>
     (nat \<Rightarrow> nat \<Rightarrow> fval) \<Rightarrow> nat \<Rightarrow> (nat \<Rightarrow> nat \<Rightarrow> fval) \<Rightarrow> (nat \<Rightarrow> nat \<Rightarrow> fval)" where
  "backward_dq_body mem k v batch_id head_id seq_len head_dim scale BLOCK_SIZE_N BLOCK_SIZE_K
       IS_CAUSAL row_indices m_i d_i q_block do_block start_n dq_block =
     (let k_batch_offset = batch_id * batch_stride k;
          k_head_offset = head_id * head_stride k;
          v_batch_offset = batch_id * batch_stride v;
          v_head_offset = head_id * head_stride v;
          col_indices = (\<lambda>j. start_n + j);
          col_mask = (\<lambda>j. col_indices j < seq_len);
          causal_mask = (\<lambda>i j. row_indices i \<ge> col_indices j);
          k_block = tl_load2 mem
            (\<lambda>j c. ptr k + k_batch_offset + k_head_offset +
                    col_indices j * seq_stride k + c * head_dim_stride k)
            (\<lambda>j c. col_mask j \<and> c < head_dim) (Fin 0);
          v_block = tl_load2 mem
            (\<lambda>j c. ptr v + v_batch_offset + v_head_offset +
                    col_indices j * seq_stride v + c * head_dim_stride v)
            (\<lambda>j c. col_mask j \<and> c < head_dim) (Fin 0);
          scores = (\<lambda>i j. fmul (tl_dot BLOCK_SIZE_K q_block (tl_trans k_block) i j) scale);
          scores = (if IS_CAUSAL then tl_where causal_mask scores NInf else scores);
          p = (\<lambda>i j. fexp (fsub (scores i j) (m_i i)));
          dv = tl_dot BLOCK_SIZE_N p do_block;
          dp = tl_dot BLOCK_SIZE_K do_block (tl_trans v_block);
          ds = (\<lambda>i j. fmul (p i j) (fsub (dp i j) (d_i i)))
      in (\<lambda>i c. fadd (dq_block i c) (fmul (tl_dot BLOCK_SIZE_N ds k_block i c) scale)))"

text \<open>Lines 211 to 315: the query-gradient tile after the loop.\<close>

definition backward_dq_loop ::
  "mem \<Rightarrow> tref \<Rightarrow> tref \<Rightarrow> tref \<Rightarrow> tref \<Rightarrow> nat \<Rightarrow> nat \<Rightarrow> nat \<Rightarrow> nat \<Rightarrow> nat \<Rightarrow> nat \<Rightarrow>
     fval \<Rightarrow> nat \<Rightarrow> nat \<Rightarrow> nat \<Rightarrow> bool \<Rightarrow> nat \<times> nat \<times> nat \<Rightarrow> (nat \<Rightarrow> nat \<Rightarrow> fval)" where
  "backward_dq_loop mem q k v do' m_ptr l_ptr d_ptr seq_len num_heads head_dim scale
       BLOCK_SIZE_M BLOCK_SIZE_N BLOCK_SIZE_K IS_CAUSAL pid =
     (case pid of (batch_id, head_id, m_id) \<Rightarrow>
      let start_m = m_id * BLOCK_SIZE_M;
          row_indices = (\<lambda>i. start_m + i);
          row_mask = (\<lambda>i. row_indices i < seq_len);
          q_batch_offset = batch_id * batch_stride q;
          q_head_offset = head_id * head_stride q;
          do_batch_offset = batch_id * batch_stride do';
          do_head_offset = head_id * head_stride do';
          m_offset = batch_id * (num_heads * seq_len) + head_id * seq_len;
          m_i = tl_load1 mem (\<lambda>i. m_ptr + m_offset + row_indices i) row_mask NInf;
          l_i = tl_load1 mem (\<lambda>i. l_ptr + m_offset + row_indices i) row_mask (Fin 0);
          d_i = tl_load1 mem (\<lambda>i. d_ptr + m_offset + row_indices i) row_mask (Fin 0);
          q_block = tl_load2 mem
            (\<lambda>i c. ptr q + q_batch_offset + q_head_offset +
                    row_indices i * seq_stride q + c * head_dim_stride q)
            (\<lambda>i c. row_mask i \<and> c < head_dim) (Fin 0);
          do_block = tl_load2 mem
            (\<lambda>i c. ptr do' + do_batch_offset + do_head_offset +
                    row_indices i * seq_stride do' + c * head_dim_stride do')
            (\<lambda>i c. row_mask i \<and> c < head_dim) (Fin 0);
          dq_block = (\<lambda>i c. Fin 0)
      in fold (backward_dq_body mem k v batch_id head_id seq_len head_dim scale BLOCK_SIZE_N
                 BLOCK_SIZE_K IS_CAUSAL row_indices m_i d_i q_block do_block)
           (py_range seq_len BLOCK_SIZE_N) dq_block)"

definition flash_attn_v2_backward_dq ::
  "tref \<Rightarrow> tref \<Rightarrow> tref \<Rightarrow> tref \<Rightarrow> tref \<Rightarrow> tref \<Rightarrow> nat \<Rightarrow> nat \<Rightarrow> nat \<Rightarrow> nat \<Rightarrow> nat \<Rightarrow> nat \<Rightarrow>
     nat \<Rightarrow> fval \<Rightarrow> nat \<Rightarrow> nat \<Rightarrow> nat \<Rightarrow> bool \<Rightarrow> nat \<times> nat \<times> nat \<Rightarrow> mem \<Rightarrow> mem" where
  "flash_attn_v2_backward_dq q k v o' do' dq m_ptr l_ptr d_ptr batch_size seq_len num_heads
       head_dim scale BLOCK_SIZE_M BLOCK_SIZE_N BLOCK_SIZE_K IS_CAUSAL pid mem =
     (case pid of (batch_id, head_id, m_id) \<Rightarrow>
      let start_m = m_id * BLOCK_SIZE_M;
          row_indices = (\<lambda>i. start_m + i);
          row_mask = (\<lambda>i. row_indices i < seq_len);
          dq_batch_offset = batch_id * batch_stride dq;
          dq_head_offset = head_id * head_stride dq;
          dq_block = backward_dq_loop mem q k v do' m_ptr l_ptr d_ptr seq_len num_heads
            head_dim scale BLOCK_SIZE_M BLOCK_SIZE_N BLOCK_SIZE_K IS_CAUSAL pid
      in tl_store2 BLOCK_SIZE_M BLOCK_SIZE_K
           (\<lambda>i c. ptr dq + dq_batch_offset + dq_head_offset +
                   row_indices i * seq_stride dq + c * head_dim_stride dq)
           dq_block (\<lambda>i c. row_mask i \<and> c < head_dim) mem)"

text \<open>
  One iteration of the loop over query tiles of \<^verbatim>\<open>flash_attn_v2_backward_dkv\<close>; the
  state is \<open>(dk_block, dv_block)\<close>. Query rows beyond \<open>seq_len\<close> load \<open>q = 0\<close>,
  \<open>dO = 0\<close>, \<open>m_i = -\<infinity>\<close> and \<open>d_i = 0\<close>.
\<close>

definition backward_dkv_body ::
  "mem \<Rightarrow> tref \<Rightarrow> tref \<Rightarrow> nat \<Rightarrow> nat \<Rightarrow> nat \<Rightarrow> nat \<Rightarrow> nat \<Rightarrow> nat \<Rightarrow> nat \<Rightarrow> fval \<Rightarrow> nat \<Rightarrow> nat \<Rightarrow>
     bool \<Rightarrow> (nat \<Rightarrow> nat) \<Rightarrow> (nat \<Rightarrow> nat \<Rightarrow> fval) \<Rightarrow> (nat \<Rightarrow> nat \<Rightarrow> fval) \<Rightarrow> nat \<Rightarrow>
     (nat \<Rightarrow> nat \<Rightarrow> fval) \<times> (nat \<Rightarrow> nat \<Rightarrow> fval) \<Rightarrow> (nat \<Rightarrow> nat \<Rightarrow> fval) \<times> (nat \<Rightarrow> nat \<Rightarrow> fval)" where
  "backward_dkv_body mem q do' m_ptr d_ptr batch_id head_id seq_len num_heads head_dim scale
       BLOCK_SIZE_M BLOCK_SIZE_K IS_CAUSAL col_indices k_block v_block start_m st =
     (case st of (dk_block, dv_block) \<Rightarrow>
      let q_batch_offset = batch_id * batch_stride q;
          q_head_offset = head_id * head_stride q;
          do_batch_offset = batch_id * batch_stride do';
          do_head_offset = head_id * head_stride do';
          offset_ml = batch_id * (num_heads * seq_len) + head_id * seq_len;
          row_indices = (\<lambda>i. start_m + i);
          row_mask = (\<lambda>i. row_indices i < seq_len);
          causal_mask = (\<lambda>i j. row_indices i \<ge> col_indices j);
          q_block = tl_load2 mem
            (\<lambda>i c. ptr q + q_batch_offset + q_head_offset +
                    row_indices i * seq_stride q + c * head_dim_stride q)
            (\<lambda>i c. row_mask i \<and> c < head_dim) (Fin 0);
          do_block = tl_load2 mem
            (\<lambda>i c. ptr do' + do_batch_offset + do_head_offset +
                    row_indices i * seq_stride do' + c * head_dim_stride do')
            (\<lambda>i c. row_mask i \<and> c < head_dim) (Fin 0);
          m_i = tl_load1 mem (\<lambda>i. m_ptr + offset_ml + row_indices i) row_mask NInf;
          d_i = tl_load1 mem (\<lambda>i. d_ptr + offset_ml + row_indices i) row_mask (Fin 0);
          qk_t = (\<lambda>j i. fmul (tl_dot BLOCK_SIZE_K k_block (tl_trans q_block) j i) scale);
          qk_t = (if IS_CAUSAL then tl_where (tl_trans causal_mask) qk_t NInf else qk_t);
          p_t = (\<lambda>j i. fexp (fsub (qk_t j i) (m_i i)));
          dv_block = (\<lambda>j c. fadd (dv_block j c) (tl_dot BLOCK_SIZE_M p_t do_block j c));
          dp_t = tl_dot BLOCK_SIZE_K v_block (tl_trans do_block);
          ds_t = (\<lambda>j i. fmul (p_t j i) (fsub (dp_t j i) (d_i i)));
          dk_block = (\<lambda>j c. fadd (dk_block j c)
                                 (fmul (tl_dot BLOCK_SIZE_M ds_t q_block j c) scale))
      in (dk_block, dv_block))"

text \<open>Lines 345 to 450: the key- and value-gradient tiles after the loop.\<close>

definition backward_dkv_loop ::
  "mem \<Rightarrow> tref \<Rightarrow> tref \<Rightarrow> tref \<Rightarrow> tref \<Rightarrow> nat \<Rightarrow> nat \<Rightarrow> nat \<Rightarrow> nat \<Rightarrow> nat \<Rightarrow> fval \<Rightarrow> nat \<Rightarrow> nat \<Rightarrow>
     nat \<Rightarrow> bool \<Rightarrow> nat \<times> nat \<times> nat \<Rightarrow> (nat \<Rightarrow> nat \<Rightarrow> fval) \<times> (nat \<Rightarrow> nat \<Rightarrow> fval)" where
  "backward_dkv_loop mem q k v do' m_ptr d_ptr seq_len num_heads head_dim scale
       BLOCK_SIZE_M BLOCK_SIZE_N BLOCK_SIZE_K IS_CAUSAL pid =
     (case pid of (batch_id, head_id, n_id) \<Rightarrow>
      let start_n = n_id * BLOCK_SIZE_N;
          col_indices = (\<lambda>j. start_n + j);
          col_mask = (\<lambda>j. col_indices j < seq_len);
          k_batch_offset = batch_id * batch_stride k;
          k_head_offset = head_id * head_stride k;
          v_batch_offset = batch_id * batch_stride v;
          v_head_offset = head_id * head_stride v;
          dk_block = (\<lambda>j c. Fin 0);
          dv_block = (\<lambda>j c. Fin 0);
          k_block = tl_load2 mem
            (\<lambda>j c. ptr k + k_batch_offset + k_head_offset +
                    col_indices j * seq_stride k + c * head_dim_stride k)
            (\<lambda>j c. col_mask j \<and> c < head_dim) (Fin 0);
          v_block = tl_load2 mem
            (\<lambda>j c. ptr v + v_batch_offset + v_head_offset +
                    col_indices j * seq_stride v + c * head_dim_stride v)
            (\<lambda>j c. col_mask j \<and> c < head_dim) (Fin 0)
      in fold (backward_dkv_body mem q do' m_ptr d_ptr batch_id head_id seq_len num_heads
                 head_dim scale BLOCK_SIZE_M BLOCK_SIZE_K IS_CAUSAL col_indices k_block v_block)
           (py_range seq_len BLOCK_SIZE_M) (dk_block, dv_block))"

definition flash_attn_v2_backward_dkv ::
  "tref \<Rightarrow> tref \<Rightarrow> tref \<Rightarrow> tref \<Rightarrow> tref \<Rightarrow> tref \<Rightarrow> tref \<Rightarrow> nat \<Rightarrow> nat \<Rightarrow> nat \<Rightarrow> nat \<Rightarrow> nat \<Rightarrow>
     nat \<Rightarrow> nat \<Rightarrow> fval \<Rightarrow> nat \<Rightarrow> nat \<Rightarrow> nat \<Rightarrow> bool \<Rightarrow> nat \<times> nat \<times> nat \<Rightarrow> mem \<Rightarrow> mem" where
  "flash_attn_v2_backward_dkv q k v o' do' dk dv m_ptr l_ptr d_ptr batch_size seq_len
       num_heads head_dim scale BLOCK_SIZE_M BLOCK_SIZE_N BLOCK_SIZE_K IS_CAUSAL pid mem =
     (case pid of (batch_id, head_id, n_id) \<Rightarrow>
      case backward_dkv_loop mem q k v do' m_ptr d_ptr seq_len num_heads head_dim scale
             BLOCK_SIZE_M BLOCK_SIZE_N BLOCK_SIZE_K IS_CAUSAL pid of (dk_block, dv_block) \<Rightarrow>
      let start_n = n_id * BLOCK_SIZE_N;
          col_indices = (\<lambda>j. start_n + j);
          col_mask = (\<lambda>j. col_indices j < seq_len);
          dk_batch_offset = batch_id * batch_stride dk;
          dk_head_offset = head_id * head_stride dk;
          dv_batch_offset = batch_id * batch_stride dv;
          dv_head_offset = head_id * head_stride dv;
          mem = tl_store2 BLOCK_SIZE_N BLOCK_SIZE_K
            (\<lambda>j c. ptr dk + dk_batch_offset + dk_head_offset +
                    col_indices j * seq_stride dk + c * head_dim_stride dk)
            dk_block (\<lambda>j c. col_mask j \<and> c < head_dim) mem
      in tl_store2 BLOCK_SIZE_N BLOCK_SIZE_K
           (\<lambda>j c. ptr dv + dv_batch_offset + dv_head_offset +
                   col_indices j * seq_stride dv + c * head_dim_stride dv)
           dv_block (\<lambda>j c. col_mask j \<and> c < head_dim) mem)"

section \<open>The backward entry point\<close>

text \<open>
  The element offsets of a strided tensor in row-major order of its indices, and the
  library calls the backward entry point makes: \<^verbatim>\<open>zeros_like\<close> (allocate and fill),
  \<^verbatim>\<open>contiguous\<close> (the tensor itself when it is already contiguous, else a row-major
  copy).
\<close>

fun element_offsets :: "nat list \<Rightarrow> nat list \<Rightarrow> nat list" where
  "element_offsets [] ss = [0]"
| "element_offsets (n # ns) [] = []"
| "element_offsets (n # ns) (s # ss) =
     concat (map (\<lambda>i. map (\<lambda>r. i * s + r) (element_offsets ns ss)) [0..<n])"

definition element_addrs :: "tensor \<Rightarrow> nat list" where
  "element_addrs t = map (\<lambda>r. data_ptr t + r) (element_offsets (shape t) (strides t))"

definition zeros_like :: "nat \<Rightarrow> nat list \<Rightarrow> tensor \<Rightarrow> mem \<Rightarrow> mem \<times> tensor" where
  "zeros_like p ss t mem =
     (let z = empty_like p ss t
      in (fold (\<lambda>a m. m(a := Fin 0)) (element_addrs z) mem, z))"

fun contiguous_strides :: "nat list \<Rightarrow> nat list" where
  "contiguous_strides [] = []"
| "contiguous_strides (n # ns) = prod_list (map (max 1) ns) # contiguous_strides ns"

fun strides_match :: "nat \<Rightarrow> (nat \<times> nat) list \<Rightarrow> bool" where
  "strides_match z [] = True"
| "strides_match z ((n, s) # rest) =
     (if n \<noteq> 1 then (if s = z then strides_match (z * n) rest else False)
      else strides_match z rest)"

definition is_contiguous :: "tensor \<Rightarrow> bool" where
  "is_contiguous t =
     (if prod_list (shape t) = 0 then True
      else strides_match 1 (rev (zip (shape t) (strides t))))"

definition contiguous :: "nat \<Rightarrow> tensor \<Rightarrow> mem \<Rightarrow> mem \<times> tensor" where
  "contiguous p t mem =
     (if is_contiguous t then (mem, t)
      else let c = \<lparr>data_ptr = p, shape = shape t, strides = contiguous_strides (shape t)\<rparr>
           in (fold (\<lambda>sd m. m(snd sd := mem (fst sd)))
                 (zip (element_addrs t) (element_addrs c)) mem, c))"

record bwd_alloc =
  dq_data :: nat
  dq_strides :: "nat list"
  dk_data :: nat
  dk_strides :: "nat list"
  dv_data :: nat
  dv_strides :: "nat list"
  do_data :: nat
  d_data :: nat

text \<open>
  \<^verbatim>\<open>FlashAttentionV2.backward\<close>. The preprocess kernel is launched with the
  positional arguments \<^verbatim>\<open>batch_size, num_heads, seq_len, head_dim\<close> (line 550) although
  its parameters are \<^verbatim>\<open>batch_size, seq_len, num_heads, head_dim\<close> (line 148); the two
  other kernels are launched with \<^verbatim>\<open>batch_size, seq_len, num_heads, head_dim\<close>.
  The result is the memory after the three launches and the tensors \<open>dq, dk, dv\<close>.
\<close>

definition backward ::
  "mem \<Rightarrow> bwd_alloc \<Rightarrow> ctx \<Rightarrow> tensor \<Rightarrow> (error + mem \<times> tensor \<times> tensor \<times> tensor) option" where
  "backward mem al c do' =
     (let q = saved_q c; k = saved_k c; v = saved_v c; o' = saved_o c;
          m = saved_m c; l = saved_l c;
          scale = ctx_scale c; causal = ctx_causal c; block_size = ctx_block_size c
      in case shape q of
        [batch_size, num_heads, seq_len, head_dim] \<Rightarrow>
          (let (mem, dq) = zeros_like (dq_data al) (dq_strides al) q mem;
               (mem, dk) = zeros_like (dk_data al) (dk_strides al) k mem;
               (mem, dv) = zeros_like (dv_data al) (dv_strides al) v mem;
               (mem, do') = contiguous (do_data al) do' mem;
               d = torch_empty3 (d_data al) batch_size num_heads seq_len
           in case round_block_k head_dim of
                None \<Rightarrow> None
              | Some block_k \<Rightarrow> Some (
                  bind_err (triton_cdiv seq_len block_size) (\<lambda>gz.
                  bind_err (kernel_ref o') (\<lambda>or.
                  bind_err (kernel_ref do') (\<lambda>dor.
                  let mem = launch (batch_size, num_heads, gz)
                        (flash_attn_v2_backward_preprocess or dor (data_ptr d)
                           batch_size num_heads seq_len head_dim block_size) mem
                  in
                  bind_err (triton_cdiv seq_len block_size) (\<lambda>gz.
                  bind_err (kernel_ref q) (\<lambda>qr.
                  bind_err (kernel_ref k) (\<lambda>kr.
                  bind_err (kernel_ref v) (\<lambda>vr.
                  bind_err (kernel_ref o') (\<lambda>or.
                  bind_err (kernel_ref do') (\<lambda>dor.
                  bind_err (kernel_ref dq) (\<lambda>dqr.
                  let mem = launch (batch_size, num_heads, gz)
                        (flash_attn_v2_backward_dq qr kr vr or dor dqr
                           (data_ptr m) (data_ptr l) (data_ptr d)
                           batch_size seq_len num_heads head_dim scale
                           block_size block_size block_k causal) mem
                  in
                  bind_err (triton_cdiv seq_len block_size) (\<lambda>gz.
                  bind_err (kernel_ref q) (\<lambda>qr.
                  bind_err (kernel_ref k) (\<lambda>kr.
                  bind_err (kernel_ref v) (\<lambda>vr.
                  bind_err (kernel_ref o') (\<lambda>or.
                  bind_err (kernel_ref do') (\<lambda>dor.
                  bind_err (kernel_ref dk) (\<lambda>dkr.
                  bind_err (kernel_ref dv) (\<lambda>dvr.
                    Inr (launch (batch_size, num_heads, gz)
                           (flash_attn_v2_backward_dkv qr kr vr or dor dkr dvr
                              (data_ptr m) (data_ptr l) (data_ptr d)
                              batch_size seq_len num_heads head_dim scale
                              block_size block_size block_k causal) mem,
                         dq, dk, dv)))))))))))))))))))))
      | _ \<Rightarrow> Some (Inl ValueError))"

section \<open>The reference the kernels are compared with\<close>

text \<open>
  The direct, non-tiled attention of the specification, written from its words:
  \<open>softmax(scale \<cdot> Q \<cdot> K\<^sup>T) \<cdot> V\<close> row by row over the \<open>seq_len\<close> valid key positions,
  with the standard max-subtraction softmax applied to the full row.
\<close>

definition elem_addr :: "tref \<Rightarrow> nat \<Rightarrow> nat \<Rightarrow> nat \<Rightarrow> nat \<Rightarrow> nat" where
  "elem_addr t b h i c =
     ptr t + b * batch_stride t + h * head_stride t + i * seq_stride t + c * head_dim_stride t"

definition reference_scores ::
  "mem \<Rightarrow> tref \<Rightarrow> tref \<Rightarrow> nat \<Rightarrow> fval \<Rightarrow> nat \<Rightarrow> nat \<Rightarrow> nat \<Rightarrow> nat \<Rightarrow> fval" where
  "reference_scores mem q k head_dim scale b h i =
     (\<lambda>j. fmul (tl_sum head_dim (\<lambda>e. fmul (mem (elem_addr q b h i e))
                                          (mem (elem_addr k b h j e)))) scale)"

definition reference_softmax :: "nat \<Rightarrow> (nat \<Rightarrow> fval) \<Rightarrow> nat \<Rightarrow> fval" where
  "reference_softmax n s =
     (let mx = tl_max n s;
          e = (\<lambda>j. fexp (fsub (s j) mx));
          z = tl_sum n e
      in (\<lambda>j. fdiv (e j) z))"

definition reference_attention ::
  "mem \<Rightarrow> tref \<Rightarrow> tref \<Rightarrow> tref \<Rightarrow> nat \<Rightarrow> nat \<Rightarrow> fval \<Rightarrow> nat \<Rightarrow> nat \<Rightarrow> nat \<Rightarrow> nat \<Rightarrow> fval" where
  "reference_attention mem q k v seq_len head_dim scale b h i c =
     tl_sum seq_len
       (\<lambda>j. fmul (reference_softmax seq_len (reference_scores mem q k head_dim scale b h i) j)
                 (mem (elem_addr v b h j c)))"

text \<open>
  The scalar whose gradient the backward call returns: the reference output paired with
  the incoming output gradient, \<open>\<Sum>\<^sub>i \<Sum>\<^sub>c dO[i, c] \<cdot> O[i, c]\<close>; and the row sum
  \<open>\<Sum>\<^sub>c O[i, c] \<cdot> dO[i, c]\<close> that the statistic \<open>D\<close> stands for.
\<close>

definition reference_loss ::
  "mem \<Rightarrow> tref \<Rightarrow> tref \<Rightarrow> tref \<Rightarrow> tref \<Rightarrow> nat \<Rightarrow> nat \<Rightarrow> fval \<Rightarrow> nat \<Rightarrow> nat \<Rightarrow> fval" where
  "reference_loss mem q k v do' seq_len head_dim scale b h =
     tl_sum seq_len (\<lambda>i. tl_sum head_dim (\<lambda>c.
       fmul (mem (elem_addr do' b h i c))
            (reference_attention mem q k v seq_len head_dim scale b h i c)))"

definition reference_rowsum :: "mem \<Rightarrow> tref \<Rightarrow> tref \<Rightarrow> nat \<Rightarrow> nat \<Rightarrow> nat \<Rightarrow> nat \<Rightarrow> fval" where
  "reference_rowsum mem o' do' head_dim b h i =
     tl_sum head_dim (\<lambda>c. fmul (mem (elem_addr o' b h i c)) (mem (elem_addr do' b h i c)))"

text \<open>The tolerance of the specification: a relative error of at most \<open>10\<^sup>-\<^sup>3\<close>.\<close>

definition within_tolerance :: "fval \<Rightarrow> fval \<Rightarrow> bool" where
  "within_tolerance x y =
     (case x of Fin a \<Rightarrow> (case y of Fin b \<Rightarrow> \<bar>a - b\<bar> \<le> \<bar>b\<bar> / 1000 | _ \<Rightarrow> False)
      | _ \<Rightarrow> False)"

section \<open>One row of the forward loop\<close>











section \<open>Concrete inputs\<close>

text \<open>
  Contiguous tensors of the shapes used below, at a given address, and the memory
  \<open>fill_mem g xs\<close> that holds the list \<open>xs\<close> from address \<open>0\<close> on and \<open>g\<close> everywhere
  else (the content of memory that nobody initialised).
\<close>

definition contiguous4 :: "nat \<Rightarrow> nat \<Rightarrow> nat \<Rightarrow> nat \<Rightarrow> nat \<Rightarrow> tensor" where
  "contiguous4 p n0 n1 n2 n3 =
     \<lparr>data_ptr = p, shape = [n0, n1, n2, n3], strides = [n1 * n2 * n3, n2 * n3, n3, 1]\<rparr>"

definition contiguous_ref :: "nat \<Rightarrow> nat \<Rightarrow> nat \<Rightarrow> nat \<Rightarrow> tref" where
  "contiguous_ref p n1 n2 n3 =
     \<lparr>ptr = p, batch_stride = n1 * n2 * n3, head_stride = n2 * n3, seq_stride = n3,
      head_dim_stride = 1\<rparr>"

definition fill_mem :: "fval \<Rightarrow> fval list \<Rightarrow> mem" where
  "fill_mem g xs = (\<lambda>a. if a < length xs then xs ! a else g)"

text \<open>
  One training step as the differentiation-graph collaborator drives it: the forward
  call, then the backward call on the context the forward call saved, with the output
  gradient \<open>do'\<close> already in memory.
\<close>

definition forward_backward ::
  "mem \<Rightarrow> fwd_alloc \<Rightarrow> bwd_alloc \<Rightarrow> tensor \<Rightarrow> tensor \<Rightarrow> tensor \<Rightarrow> tensor \<Rightarrow> fval \<Rightarrow> bool \<Rightarrow>
     nat \<Rightarrow> (error + mem \<times> tensor \<times> tensor \<times> tensor) option" where
  "forward_backward mem fal bal q k v do' scale causal block_size =
     (case forward mem fal q k v scale causal block_size of
        None \<Rightarrow> None
      | Some (Inl e) \<Rightarrow> Some (Inl e)
      | Some (Inr (mem', o', c)) \<Rightarrow> backward mem' bal c do')"

text \<open>
  Input A: one batch, one head, one position, two features, tile size 1. Query, key and
  value lie at addresses 0, 2 and 4; the allocator places the output at 6, \<open>M\<close> at 8
  and \<open>L\<close> at 9, one after the other.
\<close>

definition input_a_mem :: mem where
  "input_a_mem = fill_mem (Fin 7) [Fin 1, Fin 0, Fin 1, Fin 0, Fin 3, Fin 4]"

definition input_a_alloc :: fwd_alloc where
  "input_a_alloc = \<lparr>o_data = 6, o_strides = [2, 2, 2, 1], m_data = 8, l_data = 9\<rparr>"

text \<open>
  Input B: one batch, one head, one position, one feature, tile size 2 (which does not
  divide the sequence length), \<open>q = k = 0\<close>, \<open>v = 1\<close>.
\<close>

definition input_b_mem :: mem where
  "input_b_mem = fill_mem (Fin 9) [Fin 0, Fin 0, Fin 1]"

definition input_b_alloc :: fwd_alloc where
  "input_b_alloc = \<lparr>o_data = 3, o_strides = [1, 1, 1, 1], m_data = 4, l_data = 5\<rparr>"







section \<open>Two runs of the backward call\<close>









section \<open>Properties of the dispatcher's rounding\<close>

lemma double_while_least:
  "0 < b \<Longrightarrow> \<exists>t. double_while b h = Some (b * 2 ^ t) \<and> h \<le> b * 2 ^ t \<and>
      (\<forall>s. h \<le> b * 2 ^ s \<longrightarrow> t \<le> s)"
proof (induction "h - b" arbitrary: b rule: less_induct)
  case less
  show ?case
  proof (cases "b < h")
    case False
    then have "double_while b h = Some (b * 2 ^ 0)"
      by (subst double_while.simps) simp
    moreover have "h \<le> b * 2 ^ 0" using False by simp
    ultimately show ?thesis by blast
  next
    case True
    with less.prems have "h - b * 2 < h - b" "0 < b * 2" by simp_all
    with less.hyps [of "b * 2"] obtain t where
      t: "double_while (b * 2) h = Some (b * 2 * 2 ^ t)" "h \<le> b * 2 * 2 ^ t"
         "\<forall>s. h \<le> b * 2 * 2 ^ s \<longrightarrow> t \<le> s"
      by blast
    have run: "double_while b h = Some (b * 2 ^ Suc t)"
      using True t(1) by (subst double_while.simps) (simp add: mult.assoc)
    have bound: "h \<le> b * 2 ^ Suc t"
      using t(2) by (simp add: mult.assoc)
    have least: "Suc t \<le> s" if "h \<le> b * 2 ^ s" for s
    proof (cases s)
      case 0
      with that True show ?thesis by simp
    next
      case (Suc s')
      with that have "h \<le> b * 2 * 2 ^ s'" by (simp add: mult.assoc)
      with t(3) have "t \<le> s'" by blast
      with Suc show ?thesis by simp
    qed
    from run bound least show ?thesis by blast
  qed
qed

lemma and_pred_zero_iff_pow2:
  "0 < n \<Longrightarrow> (n AND (n - 1) = 0) = (\<exists>k. n = 2 ^ k)" for n :: nat
proof (induction n rule: less_induct)
  case (less n)
  show ?case
  proof (cases "even n")
    case True
    then obtain m where m: "n = 2 * m" by (elim evenE)
    with less.prems have mpos: "0 < m" by simp
    have pred: "n - 1 = 2 * (m - 1) + 1" using m mpos by simp
    have "n AND (n - 1) = 2 * (m AND (m - 1))"
      unfolding pred unfolding m
      by (subst and_rec) simp
    then have "(n AND (n - 1) = 0) = (m AND (m - 1) = 0)" by simp
    also have "\<dots> = (\<exists>k. m = 2 ^ k)"
      using less.IH [of m] m mpos by simp
    also have "\<dots> = (\<exists>k. n = 2 ^ k)"
    proof
      assume "\<exists>k. m = 2 ^ k"
      then obtain k where "m = 2 ^ k" ..
      with m have "n = 2 ^ Suc k" by simp
      then show "\<exists>k. n = 2 ^ k" ..
    next
      assume "\<exists>k. n = 2 ^ k"
      then obtain k where k: "n = 2 ^ k" ..
      with True mpos m have "k \<noteq> 0" by (cases k) auto
      then obtain k' where "k = Suc k'" by (cases k) auto
      with k m have "m = 2 ^ k'" by simp
      then show "\<exists>k. m = 2 ^ k" ..
    qed
    finally show ?thesis .
  next
    case False
    then obtain m where m: "n = 2 * m + 1" by (elim oddE)
    have "n AND (n - 1) = 2 * m"
      unfolding m by (subst and_rec) simp
    moreover have "(\<exists>k. n = 2 ^ k) = (m = 0)"
    proof
      assume "\<exists>k. n = 2 ^ k"
      then obtain k where k: "n = 2 ^ k" ..
      with False have "k = 0" by (cases k) auto
      with k m show "m = 0" by simp
    next
      assume "m = 0"
      with m have "n = 2 ^ 0" by simp
      then show "\<exists>k. n = 2 ^ k" ..
    qed
    ultimately show ?thesis by simp
  qed
qed

text \<open>
  Claim C9. For every positive \<open>head_dim\<close> the rounding used by the forward and the
  backward dispatcher returns, and its result \<open>BLOCK_SIZE_K\<close> is the least power of two
  that is at least \<open>head_dim\<close>; in particular it is \<open>head_dim\<close> itself when \<open>head_dim\<close>
  is already a power of two.
\<close>

theorem round_block_k_least_pow2:
  "0 < head_dim \<Longrightarrow>
     (\<exists>k. round_block_k head_dim = Some (2 ^ k) \<and> head_dim \<le> 2 ^ k \<and>
          (\<forall>j. head_dim \<le> 2 ^ j \<longrightarrow> k \<le> j)) \<and>
     ((\<exists>n. head_dim = 2 ^ n) \<longrightarrow> round_block_k head_dim = Some head_dim)"
proof (cases "head_dim AND (head_dim - 1) = 0")
  case True
  assume pos: "0 < head_dim"
  from True have r: "round_block_k head_dim = Some head_dim"
    by (simp add: round_block_k_def)
  from True pos obtain k where k: "head_dim = 2 ^ k"
    using and_pred_zero_iff_pow2 [of head_dim] by blast
  have "\<forall>j. head_dim \<le> 2 ^ j \<longrightarrow> k \<le> j"
    unfolding k by simp
  with r k show ?thesis by auto
next
  case False
  assume pos: "0 < head_dim"
  from False have r: "round_block_k head_dim = double_while 1 head_dim"
    by (simp add: round_block_k_def)
  from False pos have "\<not> (\<exists>n. head_dim = 2 ^ n)"
    using and_pred_zero_iff_pow2 [of head_dim] by simp
  moreover from double_while_least [of 1 head_dim] obtain t where
    "double_while 1 head_dim = Some (2 ^ t)" "head_dim \<le> 2 ^ t"
    "\<forall>s. head_dim \<le> 2 ^ s \<longrightarrow> t \<le> s"
    by auto
  ultimately show ?thesis using r by auto
qed

theorem round_block_k_least_pow2_witness:
  "(0::nat) < 6 \<and> round_block_k 6 = Some 8 \<and> round_block_k 8 = Some 8"
proof -
  have six: "(0::nat) < 6" by simp
  from round_block_k_least_pow2 [OF six] obtain k where
    k: "round_block_k 6 = Some (2 ^ k)" "(6::nat) \<le> 2 ^ k" "\<forall>j. (6::nat) \<le> 2 ^ j \<longrightarrow> k \<le> j"
    by blast
  from k(3) have "k \<le> 3" by simp
  then have "k = 0 \<or> k = 1 \<or> k = 2 \<or> k = 3" by arith
  with k(2) have "k = 3" by auto
  with k(1) have a: "round_block_k 6 = Some 8" by simp
  have eight: "(0::nat) < 8" by simp
  have "\<exists>n. (8::nat) = 2 ^ n" by (rule exI [of _ 3]) simp
  with round_block_k_least_pow2 [OF eight] have b: "round_block_k 8 = Some 8" by blast
  from six a b show ?thesis by simp
qed

section \<open>Evaluating the model on concrete inputs\<close>

lemmas eval_defs =
  forward_def backward_def forward_backward_def triton_cdiv_def cdiv_def kernel_ref_def
  stride_def bind_err_def empty_like_def torch_empty3_def launch_def program_ids_def
  flash_attn_v2_forward_def forward_loop_def py_range_def forward_body_def
  tl_store1_def tl_store2_def tl_load1_def tl_load2_def tl_dot_def tl_sum_def tl_max_def
  tl_trans_def tl_where_def fsub_def Let_def zeros_like_def contiguous_def is_contiguous_def
  element_addrs_def flash_attn_v2_backward_preprocess_def flash_attn_v2_backward_dq_def
  backward_dq_loop_def backward_dq_body_def flash_attn_v2_backward_dkv_def
  backward_dkv_loop_def backward_dkv_body_def signed_inf_def round_block_k_def
  contiguous4_def contiguous_ref_def fill_mem_def elem_addr_def reference_attention_def
  reference_loss_def reference_rowsum_def reference_scores_def reference_softmax_def
  within_tolerance_def normalize_out_def

lemma upt_0_2: "[0..<2] = [0, Suc 0]"
  by (simp add: upt_rec)

lemma upt_1_2: "[Suc 0..<2] = [Suc 0]"
  by (simp add: upt_rec)

section \<open>The statistics buffers after a forward call\<close>

text \<open>
  Claim C1 says that after a forward call the buffers \<open>M\<close> and \<open>L\<close> kept for the
  backward call hold the final running maximum and running sum of every row. On input A
  the forward call succeeds and saves \<open>M\<close> at address 8 and \<open>L\<close> at address 9; the
  kernel computes running maximum 1 and running sum 1 for the only row, and stores them
  at \<open>o_ptr + 4 = 10\<close> and \<open>o_ptr + 6 = 12\<close>; the saved buffers still hold what the
  memory held before the call.
\<close>

theorem forward_leaves_saved_statistics_unwritten:
  "\<exists>mem' o' c.
     forward input_a_mem input_a_alloc (contiguous4 0 1 1 1 2) (contiguous4 2 1 1 1 2)
       (contiguous4 4 1 1 1 2) (Fin 1) False 1 = Some (Inr (mem', o', c)) \<and>
     data_ptr (saved_m c) = 8 \<and> data_ptr (saved_l c) = 9 \<and>
     fst (forward_loop input_a_mem (contiguous_ref 0 1 1 2) (contiguous_ref 2 1 1 2)
            (contiguous_ref 4 1 1 2) 1 2 (Fin 1) 1 1 2 False (0, 0, 0)) 0 = Fin 1 \<and>
     fst (snd (forward_loop input_a_mem (contiguous_ref 0 1 1 2) (contiguous_ref 2 1 1 2)
            (contiguous_ref 4 1 1 2) 1 2 (Fin 1) 1 1 2 False (0, 0, 0))) 0 = Fin 1 \<and>
     mem' 8 = input_a_mem 8 \<and> mem' 9 = input_a_mem 9 \<and> input_a_mem 8 = Fin 7 \<and>
     input_a_mem 9 = Fin 7 \<and> mem' 10 = Fin 1 \<and> mem' 12 = Fin 1"
  by (simp add: eval_defs upt_0_2 upt_1_2 input_a_mem_def input_a_alloc_def)

section \<open>The forward output against the reference\<close>

text \<open>
  Claim C2 says that without causal masking the forward output equals the direct
  softmax attention for every positive tile size, dividing the sequence length or not.
  On input B (sequence length 1, tile size 2) the key tile has one padding column; its
  key is loaded as 0, its score is \<open>0 \<cdot> scale = 0\<close> and is not masked, so it adds
  \<open>exp(0 - m)\<close> to the running sum. The kernel stores \<open>1/2\<close> where the reference is 1.
\<close>

theorem forward_counts_padding_columns:
  "\<exists>mem' o' c.
     forward input_b_mem input_b_alloc (contiguous4 0 1 1 1 1) (contiguous4 1 1 1 1 1)
       (contiguous4 2 1 1 1 1) (Fin 1) False 2 = Some (Inr (mem', o', c)) \<and>
     data_ptr o' = 3 \<and> mem' 3 = Fin (1 / 2) \<and>
     reference_attention input_b_mem (contiguous_ref 0 1 1 1) (contiguous_ref 1 1 1 1)
       (contiguous_ref 2 1 1 1) 1 1 (Fin 1) 0 0 0 0 = Fin 1 \<and>
     \<not> within_tolerance (mem' 3)
         (reference_attention input_b_mem (contiguous_ref 0 1 1 1) (contiguous_ref 1 1 1 1)
            (contiguous_ref 2 1 1 1) 1 1 (Fin 1) 0 0 0 0)"
  by (simp add: eval_defs upt_0_2 upt_1_2 input_b_mem_def input_b_alloc_def)

section \<open>The gradients against the reference\<close>


section \<open>The statistic D as the backward call computes it\<close>


section \<open>What the forward entry point rejects\<close>








section \<open>Addresses a kernel program does not write\<close>

lemma fold_frame:
  assumes "\<And>x m. x \<in> set xs \<Longrightarrow> f x m a = m a"
  shows "fold f xs mem a = mem a"
  using assms by (induction xs arbitrary: mem) simp_all

lemma tl_store1_frame:
  assumes "\<And>i. i < M \<Longrightarrow> msk i \<Longrightarrow> ptrs i \<noteq> a"
  shows "tl_store1 M ptrs val msk mem a = mem a"
  unfolding tl_store1_def using assms by (intro fold_frame) auto





section \<open>Rows beyond the sequence length\<close>


section \<open>The forward loop, row by row\<close>
























section \<open>Causal masking\<close>




section \<open>The division by the running sum\<close>






section \<open>The backward call on two memories that differ in a region\<close>





























end
